theory Spec2Isabelle
  imports Complex_Main "HOL-Library.Word"
begin

section \<open>Values, errors and effects\<close>

text \<open>
  The source throws plain \<open>Error\<close> objects that differ only in their message; reading
  a property of \<open>undefined\<close> raises the runtime's \<open>TypeError\<close>.  The names the
  specification gives to the three thrown errors are introduced as the messages the
  source attaches to them.  Two more exceptions leave \<open>emit\<close>, which the dispatcher
  inherits from the runtime's event emitter: the emitter's own error for an \<open>error\<close>
  event that nobody listens to, and whatever a listener throws (kept apart from the
  errors the source throws itself, by the value thrown).
\<close>

datatype error = Error string | TypeError | ERR_UNHANDLED_ERROR | thrown_by_listener string

definition ValidationError :: "string \<Rightarrow> error" where
  "ValidationError f = Error (''Model '' @ f @ '' does not exists.'')"

definition IndexError :: error where
  "IndexError = Error ''Index out of bounds.''"

definition ConfigurationMismatchError :: error where
  "ConfigurationMismatchError =
     Error ''Loaded hotwords count does not match number of hotwords defined.''"

text \<open>
  A JavaScript number as far as the source looks at one: the optional audio gain is only
  tested for truthiness and handed on.  \<open>NaN\<close> and both zeros are falsy.
\<close>

datatype number = NaN | Num real

fun truthy :: "number \<Rightarrow> bool" where
  "truthy NaN = False"
| "truthy (Num x) = (x \<noteq> 0)"

type_synonym Buffer = "8 word list"

text \<open>The enum \<open>DetectionResult\<close>.\<close>

definition SILENCE :: int where "SILENCE = - 2"
definition ERROR :: int where "ERROR = - 1"
definition NOISE :: int where "NOISE = 0"

text \<open>
  What a call does besides returning: the calls made on the native engine and the
  events emitted, in the order they happen.  An emitted event is its name and the
  arguments passed after it (a string, or \<open>None\<close> for \<open>undefined\<close>).
\<close>

datatype effect =
    native_new string string
  | native_NumHotwords
  | native_SetAudioGain number
  | native_RunDetection Buffer
  | emit string "string option list"

text \<open>
  The listeners registered on an emitter, by event name and in the order of their
  registration.  A listener is caller code; of what it does, only whether it returns
  (\<open>None\<close>) or throws a value is followed.  \<open>emit\<close> calls the listeners of the event
  in order and lets the first exception through; it answers whether the event had
  listeners.  An \<open>error\<close> event without a listener is thrown instead: the
  arguments the source passes are never error objects, so what is thrown is the
  emitter's unhandled-error exception.
\<close>

type_synonym listener = "string option list \<Rightarrow> string option"

fun call_listeners :: "listener list \<Rightarrow> string option list \<Rightarrow> string option" where
  "call_listeners [] args = None"
| "call_listeners (l # ls) args =
     (case l args of Some x \<Rightarrow> Some x | None \<Rightarrow> call_listeners ls args)"

definition EventEmitter_emit ::
  "(string \<Rightarrow> listener list) \<Rightarrow> string \<Rightarrow> string option list \<Rightarrow> error + bool"
where
  "EventEmitter_emit L name args =
     (if name = ''error'' \<and> L name = [] then Inl ERR_UNHANDLED_ERROR
      else case call_listeners (L name) args of
             Some x \<Rightarrow> Inl (thrown_by_listener x)
           | None \<Rightarrow> Inr (L name \<noteq> []))"

section \<open>The model registry (class HotwordModels)\<close>

text \<open>The field \<open>hotwords: string | Array<string>\<close>.\<close>

datatype hotwords_field = Label string | Labels "string list"

record HotwordModel =
  model_file :: string
  sensitivity :: "string option"
  hotwords :: hotwords_field

text \<open>
  Model objects are shared between the caller and the registry, and \<open>add\<close> writes to
  the object it is given, so models live in a store and are passed by reference.
\<close>

type_synonym ref = nat
type_synonym store = "ref \<Rightarrow> HotwordModel"

record HotwordModels =
  models :: "ref list"
  lookupTable :: "string list option"

text \<open>
  A new registry: \<open>models\<close> is initialised to the empty array, \<open>lookupTable\<close> is
  declared without an initialiser and so is \<open>undefined\<close>.
\<close>

definition new_HotwordModels :: HotwordModels where
  "new_HotwordModels = \<lparr>models = [], lookupTable = None\<rparr>"

text \<open>
  What \<open>Array.prototype.concat\<close> appends for one argument: the elements of an array,
  or the value itself.
\<close>

fun concat_arg :: "hotwords_field \<Rightarrow> string list" where
  "concat_arg (Label s) = [s]"
| "concat_arg (Labels xs) = xs"

definition generateHotwordsLookupTable :: "store \<Rightarrow> HotwordModels \<Rightarrow> string list" where
  "generateHotwordsLookupTable h this =
     foldl (\<lambda>hws model. hws @ concat_arg (hotwords (h model))) [] (models this)"

text \<open>
  \<open>add\<close>; the first argument answers \<open>fs.existsSync\<close>.  The assignment to
  \<open>model.hotwords\<close> comes first, then the check, then the push and the regeneration
  of the table.
\<close>

definition add ::
  "(string \<Rightarrow> bool) \<Rightarrow> ref \<Rightarrow> store \<times> HotwordModels \<Rightarrow> (error + unit) \<times> store \<times> HotwordModels"
where
  "add existsSync model s =
     (let h = fst s; this = snd s;
          h1 = h(model := (h model)\<lparr>hotwords := Labels ([] @ concat_arg (hotwords (h model)))\<rparr>)
      in if existsSync (model_file (h1 model)) = False
         then (Inl (Error (''Model '' @ model_file (h1 model) @ '' does not exists.'')), h1, this)
         else
           let this1 = this\<lparr>models := models this @ [model]\<rparr>;
               this2 = this1\<lparr>lookupTable := Some (generateHotwordsLookupTable h1 this1)\<rparr>
           in (Inr (), h1, this2))"

text \<open>\<open>Array.prototype.join()\<close> with the default separator; \<open>undefined\<close> joins as the empty string.\<close>

fun join :: "string list \<Rightarrow> string" where
  "join [] = []"
| "join [x] = x"
| "join (x # y # ys) = x @ '','' @ join (y # ys)"

fun join_elem :: "string option \<Rightarrow> string" where
  "join_elem None = []"
| "join_elem (Some s) = s"

definition modelString :: "store \<Rightarrow> HotwordModels \<Rightarrow> string" where
  "modelString h this = join (map (\<lambda>model. model_file (h model)) (models this))"

definition sensitivityString :: "store \<Rightarrow> HotwordModels \<Rightarrow> string" where
  "sensitivityString h this =
     join (map (\<lambda>model. join_elem (sensitivity (h model))) (models this))"

text \<open>Reading an array at an index: \<open>undefined\<close> outside the array.\<close>

definition array_get :: "'a list \<Rightarrow> int \<Rightarrow> 'a option" where
  "array_get xs i = (if 0 \<le> i \<and> nat i < length xs then Some (xs ! nat i) else None)"

text \<open>
  \<open>lookup\<close>: the guard is \<open>index < 0 || this.lookupTable.length\<close>.  The right operand is
  only evaluated for a non-negative index; it raises on an undefined table and is
  truthy exactly for a non-zero length.
\<close>

definition lookup :: "HotwordModels \<Rightarrow> int \<Rightarrow> error + string option" where
  "lookup this index =
     (if index < 0 then Inl (Error ''Index out of bounds.'')
      else case lookupTable this of
             None \<Rightarrow> Inl TypeError
           | Some t \<Rightarrow>
               if length t \<noteq> 0 then Inl (Error ''Index out of bounds.'')
               else Inr (array_get t index))"

definition numHotwords :: "HotwordModels \<Rightarrow> error + int" where
  "numHotwords this =
     (case lookupTable this of None \<Rightarrow> Inl TypeError | Some t \<Rightarrow> Inr (int (length t)))"

text \<open>A run of \<open>add\<close> calls, stopping at the first one that throws.\<close>

fun add_all ::
  "(string \<Rightarrow> bool) \<Rightarrow> ref list \<Rightarrow> store \<times> HotwordModels \<Rightarrow> (error + unit) \<times> store \<times> HotwordModels"
where
  "add_all existsSync [] s = (Inr (), s)"
| "add_all existsSync (m # ms) s =
     (case add existsSync m s of
        (Inl e, s') \<Rightarrow> (Inl e, s')
      | (Inr u, s') \<Rightarrow> add_all existsSync ms s')"

section \<open>The dispatcher (class SnowboyDetect)\<close>

text \<open>
  The native engine is not part of the sources; it is a parameter: a state type and
  the four operations the dispatcher code calls on it.
\<close>

record 's SnowboyDetectNative =
  new_native :: "string \<Rightarrow> string \<Rightarrow> 's"
  NumHotwords :: "'s \<Rightarrow> int"
  SetAudioGain :: "'s \<Rightarrow> number \<Rightarrow> 's"
  RunDetection :: "'s \<Rightarrow> Buffer \<Rightarrow> int \<times> 's"

text \<open>
  \<open>DetectorOptions\<close>.  The field \<open>models\<close> of the options and of the dispatcher is a
  reference to the caller's registry; the registry's state at the time of a call
  is passed to that call (here as \<open>opt_models\<close>, below as an argument).
\<close>

record DetectorOptions =
  resource :: string
  opt_models :: HotwordModels
  audioGain :: "number option"

text \<open>
  The dispatcher object: the engine instance, and the listeners it holds as an event
  emitter (the class extends \<open>stream.Writable\<close>).  The constructor registers none.
\<close>

record 's SnowboyDetect =
  nativeInstance :: 's
  listeners :: "string \<Rightarrow> listener list"

definition SnowboyDetect_constructor ::
  "'s SnowboyDetectNative \<Rightarrow> store \<Rightarrow> DetectorOptions \<Rightarrow> (error + 's SnowboyDetect) \<times> effect list"
where
  "SnowboyDetect_constructor N h options =
     (let ms = modelString h (opt_models options);
          inst = new_native N (resource options) ms;
          t1 = [native_new (resource options) ms, native_NumHotwords]
      in case numHotwords (opt_models options) of
           Inl e \<Rightarrow> (Inl e, t1)
         | Inr n \<Rightarrow>
             if NumHotwords N inst \<noteq> n
             then (Inl (Error ''Loaded hotwords count does not match number of hotwords defined.''), t1)
             else (case audioGain options of
                     None \<Rightarrow> (Inr \<lparr>nativeInstance = inst, listeners = (\<lambda>name. [])\<rparr>, t1)
                   | Some g \<Rightarrow>
                       if truthy g
                       then (Inr \<lparr>nativeInstance = SetAudioGain N inst g, listeners = (\<lambda>name. [])\<rparr>,
                             t1 @ [native_SetAudioGain g])
                       else (Inr \<lparr>nativeInstance = inst, listeners = (\<lambda>name. [])\<rparr>, t1)))"

text \<open>
  A call \<open>this.emit(name, ...)\<close>: the call is recorded among the effects; it returns
  (its boolean is not used) or throws as the emitter does.
\<close>

definition this_emit ::
  "'s SnowboyDetect \<Rightarrow> string \<Rightarrow> string option list \<Rightarrow> (error + unit) \<times> effect list"
where
  "this_emit this name args =
     (case EventEmitter_emit (listeners this) name args of
        Inl e \<Rightarrow> (Inl e, [emit name args])
      | Inr b \<Rightarrow> (Inr (), [emit name args]))"

definition processDetectionResult ::
  "HotwordModels \<Rightarrow> 's SnowboyDetect \<Rightarrow> int \<Rightarrow> (error + unit) \<times> effect list"
where
  "processDetectionResult ms this index =
     (if index = ERROR then this_emit this ''error'' []
      else if index = SILENCE then this_emit this ''silence'' []
      else if index = NOISE then this_emit this ''noise'' []
      else case lookup ms index of
             Inl e \<Rightarrow> (Inl e, [])
           | Inr hotword \<Rightarrow> this_emit this ''hotword'' [hotword])"

definition runDetection ::
  "'s SnowboyDetectNative \<Rightarrow> HotwordModels \<Rightarrow> 's SnowboyDetect \<Rightarrow> Buffer
     \<Rightarrow> (error + int) \<times> 's SnowboyDetect \<times> effect list"
where
  "runDetection N ms this buffer =
     (let r = RunDetection N (nativeInstance this) buffer;
          index = fst r;
          this1 = this\<lparr>nativeInstance := snd r\<rparr>;
          p = processDetectionResult ms this1 index
      in (case fst p of Inl e \<Rightarrow> Inl e | Inr u \<Rightarrow> Inr index,
          this1, native_RunDetection buffer # snd p))"

text \<open>The setter \<open>setAudioGain\<close> hands its argument to the engine unconditionally.\<close>

definition setAudioGain ::
  "'s SnowboyDetectNative \<Rightarrow> 's SnowboyDetect \<Rightarrow> number \<Rightarrow> 's SnowboyDetect \<times> effect list"
where
  "setAudioGain N this gain =
     (this\<lparr>nativeInstance := SetAudioGain N (nativeInstance this) gain\<rparr>, [native_SetAudioGain gain])"

text \<open>The events among the effects of a call.\<close>

fun is_emit :: "effect \<Rightarrow> bool" where
  "is_emit (emit name args) = True"
| "is_emit e = False"

definition events :: "effect list \<Rightarrow> effect list" where
  "events t = filter is_emit t"

section \<open>A worked configuration\<close>

text \<open>
  Two models, the first with the single label \<open>alexa\<close>, the second with the labels
  \<open>ok_google\<close> and \<open>hey_google\<close>; a third model object whose file is not on disk; and
  an engine that knows three hotwords and answers every buffer with a fixed index; its
  state is the number of buffers it has seen and its audio gain, 1 when it is created.
\<close>

definition model_A :: HotwordModel where
  "model_A = \<lparr>model_file = ''alexa.umdl'', sensitivity = Some ''0.5'', hotwords = Label ''alexa''\<rparr>"

definition model_B :: HotwordModel where
  "model_B = \<lparr>model_file = ''google.umdl'', sensitivity = None,
              hotwords = Labels [''ok_google'', ''hey_google'']\<rparr>"

definition model_C :: HotwordModel where
  "model_C = \<lparr>model_file = ''missing.umdl'', sensitivity = Some ''0.4'', hotwords = Label ''jarvis''\<rparr>"

definition example_store :: store where
  "example_store = (\<lambda>r. model_C)(0 := model_A, 1 := model_B)"

definition example_fs :: "string \<Rightarrow> bool" where
  "example_fs p = (p = ''alexa.umdl'' \<or> p = ''google.umdl'')"

definition example_registry :: HotwordModels where
  "example_registry = snd (snd (add_all example_fs [0, 1] (example_store, new_HotwordModels)))"

definition example_engine :: "int \<Rightarrow> (nat \<times> number) SnowboyDetectNative" where
  "example_engine k =
     \<lparr>new_native = (\<lambda>res ms. (0, Num 1)), NumHotwords = (\<lambda>s. 3),
      SetAudioGain = (\<lambda>s g. (fst s, g)),
      RunDetection = (\<lambda>s b. (k, (Suc (fst s), snd s)))\<rparr>"

text \<open>
  The dispatcher as the constructor leaves it on that engine, and the same with a
  listener for \<open>error\<close> that returns and a listener for \<open>noise\<close> that throws.
\<close>

definition example_dispatcher :: "(nat \<times> number) SnowboyDetect" where
  "example_dispatcher = \<lparr>nativeInstance = (0, Num 1), listeners = (\<lambda>name. [])\<rparr>"

definition listening_dispatcher :: "(nat \<times> number) SnowboyDetect" where
  "listening_dispatcher =
     example_dispatcher\<lparr>listeners :=
       (\<lambda>name. [])(''error'' := [\<lambda>args. None], ''noise'' := [\<lambda>args. Some ''boom''])\<rparr>"

section \<open>Facts about the registry operations\<close>

lemma foldl_append_concat:
  "foldl (\<lambda>hws m. hws @ f m) acc xs = acc @ concat (map f xs)"
  by (induction xs arbitrary: acc) simp_all

lemma generateHotwordsLookupTable_concat:
  "generateHotwordsLookupTable h this = concat (map (\<lambda>m. concat_arg (hotwords (h m))) (models this))"
  by (simp add: generateHotwordsLookupTable_def foldl_append_concat)

lemma add_missing:
  "\<not> existsSync (model_file (h model)) \<Longrightarrow>
   add existsSync model (h, this) =
     (Inl (ValidationError (model_file (h model))),
      h(model := (h model)\<lparr>hotwords := Labels (concat_arg (hotwords (h model)))\<rparr>), this)"
  by (simp add: add_def ValidationError_def Let_def)

lemma add_present:
  "existsSync (model_file (h model)) \<Longrightarrow>
   add existsSync model (h, this) =
     (Inr (),
      h(model := (h model)\<lparr>hotwords := Labels (concat_arg (hotwords (h model)))\<rparr>),
      \<lparr>models = models this @ [model],
       lookupTable = Some (generateHotwordsLookupTable
          (h(model := (h model)\<lparr>hotwords := Labels (concat_arg (hotwords (h model)))\<rparr>))
          (this\<lparr>models := models this @ [model]\<rparr>))\<rparr>)"
  by (cases this) (simp add: add_def Let_def)

lemma example_registry_eq:
  "example_registry = \<lparr>models = [0, 1], lookupTable = Some [''alexa'', ''ok_google'', ''hey_google'']\<rparr>"
  by (simp add: example_registry_def add_def Let_def example_store_def example_fs_def
      model_A_def model_B_def new_HotwordModels_def generateHotwordsLookupTable_def)

lemma concat_arg_idem: "concat_arg (Labels (concat_arg x)) = concat_arg x"
  by simp

lemma add_step:
  assumes "add existsSync m (h, r) = (Inr u, h', r')"
  shows "models r' = models r @ [m]"
    and "concat_arg (hotwords (h' x)) = concat_arg (hotwords (h x))"
    and "lookupTable r' = Some (concat (map (\<lambda>x. concat_arg (hotwords (h' x))) (models r')))"
  using assms
  by (auto simp: add_def Let_def generateHotwordsLookupTable_concat split: if_splits)

lemma add_all_inv:
  "add_all existsSync ms (h, r) = (Inr u, h', r') \<Longrightarrow>
     models r' = models r @ ms
     \<and> (\<forall>x. concat_arg (hotwords (h' x)) = concat_arg (hotwords (h x)))
     \<and> (ms \<noteq> [] \<longrightarrow>
          lookupTable r' = Some (concat (map (\<lambda>x. concat_arg (hotwords (h' x))) (models r'))))"
proof (induction ms arbitrary: h r)
  case Nil
  then show ?case by simp
next
  case (Cons m ms)
  from Cons.prems obtain h1 r1 where
    step: "add existsSync m (h, r) = (Inr (), h1, r1)" and
    rest: "add_all existsSync ms (h1, r1) = (Inr u, h', r')"
    by (auto split: prod.splits sum.splits)
  note s = add_step [OF step]
  note ih = Cons.IH [OF rest]
  show ?case
  proof (cases "ms = []")
    case True
    with rest have "h' = h1" "r' = r1" by simp_all
    with s show ?thesis using True by simp
  next
    case False
    with ih s show ?thesis by simp
  qed
qed

lemma lookup_errors:
  "lookup ms index = Inl e \<Longrightarrow> e = Error ''Index out of bounds.'' \<or> e = TypeError"
  by (auto simp: lookup_def split: if_splits option.splits)

lemma this_emit_effects: "snd (this_emit this name args) = [emit name args]"
  by (simp add: this_emit_def split: sum.split)

lemma this_emit_result:
  "fst (this_emit this name args) =
     (if name = ''error'' \<and> listeners this name = [] then Inl ERR_UNHANDLED_ERROR
      else case call_listeners (listeners this name) args of
             Some x \<Rightarrow> Inl (thrown_by_listener x)
           | None \<Rightarrow> Inr ())"
  by (auto simp: this_emit_def EventEmitter_emit_def split: option.split)

lemma this_emit_errors:
  "fst (this_emit this name args) = Inl e \<Longrightarrow>
     e = ERR_UNHANDLED_ERROR \<or> (\<exists>x. e = thrown_by_listener x)"
  by (auto simp: this_emit_result split: if_splits option.splits)

lemma processDetectionResult_effects:
  "snd (processDetectionResult ms this index) = []
   \<or> (\<exists>name args. snd (processDetectionResult ms this index) = [emit name args])"
  by (simp add: processDetectionResult_def this_emit_effects split: sum.split)

lemma processDetectionResult_returns:
  "fst (processDetectionResult ms this index) = Inr u \<Longrightarrow>
     length (snd (processDetectionResult ms this index)) = 1"
  by (auto simp: processDetectionResult_def this_emit_effects split: if_splits sum.splits)

lemma processDetectionResult_errors:
  "fst (processDetectionResult ms this index) = Inl e \<Longrightarrow>
     e = Error ''Index out of bounds.'' \<or> e = TypeError \<or> e = ERR_UNHANDLED_ERROR
     \<or> (\<exists>x. e = thrown_by_listener x)"
  by (auto simp: processDetectionResult_def split: if_splits sum.splits
      dest: lookup_errors this_emit_errors)

lemma processDetectionResult_unresolved:
  assumes "index \<noteq> - 1" "index \<noteq> - 2"
    and "index < 0 \<or> (\<exists>t. lookupTable ms = Some t \<and> t \<noteq> [] \<and> int (length t) < index)"
  shows "processDetectionResult ms this index = (Inl IndexError, [])"
  using assms
  by (auto simp: processDetectionResult_def lookup_def IndexError_def
      ERROR_def SILENCE_def NOISE_def)

lemma runDetection_unfold:
  "RunDetection N (nativeInstance this) buffer = (index, inst') \<Longrightarrow>
   runDetection N ms this buffer
     = (case fst (processDetectionResult ms (this\<lparr>nativeInstance := inst'\<rparr>) index) of
          Inl e \<Rightarrow> Inl e | Inr u \<Rightarrow> Inr index,
        this\<lparr>nativeInstance := inst'\<rparr>,
        native_RunDetection buffer # snd (processDetectionResult ms (this\<lparr>nativeInstance := inst'\<rparr>) index))"
  by (simp add: runDetection_def Let_def split: sum.split)

section \<open>Result codes\<close>

text \<open>
  C3.  For the engine results -1, -2 and 0 the interpretation of the result makes
  exactly one \<open>emit\<close> call, for \<open>error\<close>, \<open>silence\<close> and \<open>noise\<close> respectively, with
  no argument after the event name, whatever the registry holds and whoever
  listens; a detection call whose engine returns one of them has exactly that
  event among its effects.  The interpretation then returns unless a listener of
  the event throws or, for \<open>error\<close>, no listener is registered (the emitter
  throws an \<open>error\<close> event that is emitted without a listener).
\<close>

theorem reserved_codes_emit:
  "snd (processDetectionResult ms this (- 1)) = [emit ''error'' []]
   \<and> snd (processDetectionResult ms this (- 2)) = [emit ''silence'' []]
   \<and> snd (processDetectionResult ms this 0) = [emit ''noise'' []]
   \<and> events (snd (snd (runDetection (N\<lparr>RunDetection := (\<lambda>s b. (- 1, f s b))\<rparr>) ms this buffer)))
       = [emit ''error'' []]
   \<and> events (snd (snd (runDetection (N\<lparr>RunDetection := (\<lambda>s b. (- 2, f s b))\<rparr>) ms this buffer)))
       = [emit ''silence'' []]
   \<and> events (snd (snd (runDetection (N\<lparr>RunDetection := (\<lambda>s b. (0, f s b))\<rparr>) ms this buffer)))
       = [emit ''noise'' []]
   \<and> fst (processDetectionResult ms this (- 1))
       = (if listeners this ''error'' = [] then Inl ERR_UNHANDLED_ERROR
          else case call_listeners (listeners this ''error'') [] of
                 Some x \<Rightarrow> Inl (thrown_by_listener x) | None \<Rightarrow> Inr ())
   \<and> fst (processDetectionResult ms this (- 2))
       = (case call_listeners (listeners this ''silence'') [] of
            Some x \<Rightarrow> Inl (thrown_by_listener x) | None \<Rightarrow> Inr ())
   \<and> fst (processDetectionResult ms this 0)
       = (case call_listeners (listeners this ''noise'') [] of
            Some x \<Rightarrow> Inl (thrown_by_listener x) | None \<Rightarrow> Inr ())"
  by (simp add: processDetectionResult_def runDetection_def events_def Let_def
      this_emit_effects this_emit_result ERROR_def SILENCE_def NOISE_def)

text \<open>
  C1.  A positive engine index is meant to select the label at the position one
  below it.  The source passes the index to \<open>lookup\<close> unchanged, and \<open>lookup\<close>
  throws for every non-empty table: in the worked configuration the engine result 2
  (the label \<open>ok_google\<close> at position 1) ends the detection call with the
  out-of-bounds error and no event, whoever listens.  On an empty table the lookup
  returns \<open>undefined\<close> and a \<open>hotword\<close> event without a label is emitted.
\<close>

theorem hotword_index_not_resolved:
  "lookupTable example_registry = Some [''alexa'', ''ok_google'', ''hey_google'']
   \<and> processDetectionResult example_registry this 2 = (Inl IndexError, [])
   \<and> runDetection (example_engine 2) example_registry (this\<lparr>nativeInstance := (0, Num 1)\<rparr>) buffer
       = (Inl IndexError, this\<lparr>nativeInstance := (1, Num 1)\<rparr>, [native_RunDetection buffer])
   \<and> snd (processDetectionResult \<lparr>models = ms, lookupTable = Some []\<rparr> this 1)
       = [emit ''hotword'' [None]]
   \<and> processDetectionResult \<lparr>models = ms, lookupTable = Some []\<rparr> example_dispatcher 1
       = (Inr (), [emit ''hotword'' [None]])"
  by (simp add: example_registry_eq processDetectionResult_def runDetection_def example_engine_def
      lookup_def IndexError_def ERROR_def SILENCE_def NOISE_def array_get_def Let_def
      this_emit_def EventEmitter_emit_def example_dispatcher_def split: sum.split)

text \<open>
  C7.  It is not the case that every detection call emits exactly one event and
  returns the engine's index: with three labels registered and the engine result
  4, the call emits nothing and throws the out-of-bounds error; and on a
  dispatcher as constructed, without a listener for \<open>error\<close>, the engine result
  -1 makes the call throw instead of returning -1.
\<close>

theorem one_event_per_call_counterexample:
  "events (snd (snd (runDetection (example_engine 4) example_registry example_dispatcher []))) = []
   \<and> fst (runDetection (example_engine 4) example_registry example_dispatcher []) = Inl IndexError
   \<and> \<not> (length (events (snd (snd (runDetection (example_engine 4) example_registry
                example_dispatcher [])))) = 1
        \<and> fst (runDetection (example_engine 4) example_registry example_dispatcher []) = Inr 4)
   \<and> fst (runDetection (example_engine (- 1)) example_registry example_dispatcher [])
       = Inl ERR_UNHANDLED_ERROR"
  by (simp add: runDetection_def processDetectionResult_def example_engine_def example_registry_eq
      lookup_def IndexError_def events_def ERROR_def SILENCE_def NOISE_def Let_def
      this_emit_def EventEmitter_emit_def example_dispatcher_def)

text \<open>
  C7, as the code has it.  Every detection call first forwards the buffer to the
  engine (the one engine call, before any event) and keeps the engine's new state,
  then interprets the returned index, emitting at most one event.  For the engine
  results -1, -2 and 0 it emits exactly one event (\<open>error\<close>, \<open>silence\<close>, \<open>noise\<close>,
  without payload) and returns the raw engine index when the listeners of that
  event return and, for \<open>error\<close>, at least one is registered.  For an index the
  registry cannot resolve (a negative one other than -1 and -2, or one greater
  than the length of a non-empty lookup table) it emits no event and throws the
  out-of-bounds error.  Whenever the call returns, it returns the raw engine index
  and has emitted exactly one event.
\<close>

theorem runDetection_steps:
  assumes "RunDetection N (nativeInstance this) buffer = (index, inst')"
  shows "\<exists>res evs.
      runDetection N ms this buffer
        = (res, this\<lparr>nativeInstance := inst'\<rparr>, native_RunDetection buffer # evs)
      \<and> list_all is_emit evs
      \<and> length evs \<le> 1
      \<and> (index = - 1 \<longrightarrow> evs = [emit ''error'' []]
            \<and> (listeners this ''error'' \<noteq> [] \<and> call_listeners (listeners this ''error'') [] = None
                 \<longrightarrow> res = Inr index))
      \<and> (index = - 2 \<longrightarrow> evs = [emit ''silence'' []]
            \<and> (call_listeners (listeners this ''silence'') [] = None \<longrightarrow> res = Inr index))
      \<and> (index = 0 \<longrightarrow> evs = [emit ''noise'' []]
            \<and> (call_listeners (listeners this ''noise'') [] = None \<longrightarrow> res = Inr index))
      \<and> (index \<noteq> - 1 \<and> index \<noteq> - 2
           \<and> (index < 0 \<or> (\<exists>t. lookupTable ms = Some t \<and> t \<noteq> [] \<and> int (length t) < index))
           \<longrightarrow> evs = [] \<and> res = Inl IndexError)
      \<and> (\<forall>v. res = Inr v \<longrightarrow> v = index \<and> length evs = 1)"
proof -
  let ?d = "this\<lparr>nativeInstance := inst'\<rparr>"
  let ?p = "processDetectionResult ms ?d index"
  let ?res = "case fst ?p of Inl e \<Rightarrow> Inl e | Inr u \<Rightarrow> Inr index"
  have run: "runDetection N ms this buffer = (?res, ?d, native_RunDetection buffer # snd ?p)"
    using assms by (rule runDetection_unfold)
  have pe: "snd ?p = [] \<or> (\<exists>name args. snd ?p = [emit name args])"
    by (rule processDetectionResult_effects)
  have em: "list_all is_emit (snd ?p)"
    using pe by (elim disjE exE) simp_all
  have le: "length (snd ?p) \<le> 1"
    using pe by (elim disjE exE) simp_all
  have e1: "index = - 1 \<longrightarrow> snd ?p = [emit ''error'' []]
      \<and> (listeners this ''error'' \<noteq> [] \<and> call_listeners (listeners this ''error'') [] = None
           \<longrightarrow> ?res = Inr index)"
    by (simp add: processDetectionResult_def this_emit_effects this_emit_result ERROR_def)
  have e2: "index = - 2 \<longrightarrow> snd ?p = [emit ''silence'' []]
      \<and> (call_listeners (listeners this ''silence'') [] = None \<longrightarrow> ?res = Inr index)"
    by (simp add: processDetectionResult_def this_emit_effects this_emit_result
        ERROR_def SILENCE_def)
  have e3: "index = 0 \<longrightarrow> snd ?p = [emit ''noise'' []]
      \<and> (call_listeners (listeners this ''noise'') [] = None \<longrightarrow> ?res = Inr index)"
    by (simp add: processDetectionResult_def this_emit_effects this_emit_result
        ERROR_def SILENCE_def NOISE_def)
  have e4: "index \<noteq> - 1 \<and> index \<noteq> - 2
           \<and> (index < 0 \<or> (\<exists>t. lookupTable ms = Some t \<and> t \<noteq> [] \<and> int (length t) < index))
           \<longrightarrow> snd ?p = [] \<and> ?res = Inl IndexError"
  proof
    assume h: "index \<noteq> - 1 \<and> index \<noteq> - 2
           \<and> (index < 0 \<or> (\<exists>t. lookupTable ms = Some t \<and> t \<noteq> [] \<and> int (length t) < index))"
    from h have h1: "index \<noteq> - 1" and h2: "index \<noteq> - 2"
      and h3: "index < 0 \<or> (\<exists>t. lookupTable ms = Some t \<and> t \<noteq> [] \<and> int (length t) < index)"
      by blast+
    have "?p = (Inl IndexError, [])"
      using h1 h2 h3 by (rule processDetectionResult_unresolved)
    then show "snd ?p = [] \<and> ?res = Inl IndexError" by simp
  qed
  have e5: "\<forall>v. ?res = Inr v \<longrightarrow> v = index \<and> length (snd ?p) = 1"
  proof (intro allI impI)
    fix v assume r: "?res = Inr v"
    show "v = index \<and> length (snd ?p) = 1"
    proof (cases "fst ?p")
      case (Inl e)
      with r show ?thesis by simp
    next
      case (Inr u)
      from processDetectionResult_returns [OF Inr] Inr r show ?thesis by simp
    qed
  qed
  show ?thesis
    apply (rule exI [of _ ?res])
    apply (rule exI [of _ "snd ?p"])
    apply (intro conjI)
           apply (rule run em le e1 e2 e3 e4 e5)+
    done
qed

theorem runDetection_steps_witness:
  "RunDetection (example_engine 0) (nativeInstance example_dispatcher) [1, 2] = (0, (1, Num 1))
   \<and> runDetection (example_engine 0) example_registry example_dispatcher [1, 2]
       = (Inr 0, example_dispatcher\<lparr>nativeInstance := (1, Num 1)\<rparr>,
          [native_RunDetection [1, 2], emit ''noise'' []])
   \<and> runDetection (example_engine (- 2)) example_registry example_dispatcher [1, 2]
       = (Inr (- 2), example_dispatcher\<lparr>nativeInstance := (1, Num 1)\<rparr>,
          [native_RunDetection [1, 2], emit ''silence'' []])
   \<and> listeners listening_dispatcher ''error'' \<noteq> []
   \<and> runDetection (example_engine (- 1)) example_registry listening_dispatcher [1, 2]
       = (Inr (- 1), listening_dispatcher\<lparr>nativeInstance := (1, Num 1)\<rparr>,
          [native_RunDetection [1, 2], emit ''error'' []])
   \<and> snd (snd (runDetection (example_engine 0) example_registry listening_dispatcher [1, 2]))
       = [native_RunDetection [1, 2], emit ''noise'' []]
   \<and> runDetection (example_engine (- 3)) example_registry example_dispatcher [1, 2]
       = (Inl IndexError, example_dispatcher\<lparr>nativeInstance := (1, Num 1)\<rparr>,
          [native_RunDetection [1, 2]])
   \<and> lookupTable example_registry = Some [''alexa'', ''ok_google'', ''hey_google'']
   \<and> runDetection (example_engine 4) example_registry example_dispatcher [1, 2]
       = (Inl IndexError, example_dispatcher\<lparr>nativeInstance := (1, Num 1)\<rparr>,
          [native_RunDetection [1, 2]])"
proof -
  have r: "RunDetection (example_engine k) (nativeInstance example_dispatcher) [1, 2] = (k, (1, Num 1))"
    for k by (simp add: example_engine_def example_dispatcher_def)
  have rl: "RunDetection (example_engine k) (nativeInstance listening_dispatcher) [1, 2] = (k, (1, Num 1))"
    for k by (simp add: example_engine_def example_dispatcher_def listening_dispatcher_def)
  have t: "lookupTable example_registry = Some [''alexa'', ''ok_google'', ''hey_google'']"
    by (simp add: example_registry_eq)
  have n0: "call_listeners (listeners example_dispatcher ''noise'') [] = None"
    and s0: "call_listeners (listeners example_dispatcher ''silence'') [] = None"
    by (simp_all add: example_dispatcher_def)
  have l1: "listeners listening_dispatcher ''error'' \<noteq> []"
    and l2: "call_listeners (listeners listening_dispatcher ''error'') [] = None"
    by (simp_all add: listening_dispatcher_def)
  have a: "runDetection (example_engine 0) example_registry example_dispatcher [1, 2]
       = (Inr 0, example_dispatcher\<lparr>nativeInstance := (1, Num 1)\<rparr>,
          [native_RunDetection [1, 2], emit ''noise'' []])"
    using runDetection_steps [OF r [of 0], of example_registry] n0 by auto
  have b: "runDetection (example_engine (- 2)) example_registry example_dispatcher [1, 2]
       = (Inr (- 2), example_dispatcher\<lparr>nativeInstance := (1, Num 1)\<rparr>,
          [native_RunDetection [1, 2], emit ''silence'' []])"
    using runDetection_steps [OF r [of "- 2"], of example_registry] s0 by auto
  have c: "runDetection (example_engine (- 1)) example_registry listening_dispatcher [1, 2]
       = (Inr (- 1), listening_dispatcher\<lparr>nativeInstance := (1, Num 1)\<rparr>,
          [native_RunDetection [1, 2], emit ''error'' []])"
    using runDetection_steps [OF rl [of "- 1"], of example_registry] l1 l2 by auto
  have d: "snd (snd (runDetection (example_engine 0) example_registry listening_dispatcher [1, 2]))
       = [native_RunDetection [1, 2], emit ''noise'' []]"
    using runDetection_steps [OF rl [of 0], of example_registry] by auto
  have e: "runDetection (example_engine (- 3)) example_registry example_dispatcher [1, 2]
       = (Inl IndexError, example_dispatcher\<lparr>nativeInstance := (1, Num 1)\<rparr>,
          [native_RunDetection [1, 2]])"
    using runDetection_steps [OF r [of "- 3"], of example_registry] by auto
  have f: "runDetection (example_engine 4) example_registry example_dispatcher [1, 2]
       = (Inl IndexError, example_dispatcher\<lparr>nativeInstance := (1, Num 1)\<rparr>,
          [native_RunDetection [1, 2]])"
    using runDetection_steps [OF r [of 4], of example_registry] t by auto
  show ?thesis
    by (intro conjI) (rule r [of 0] a b l1 c d e t f)+
qed

section \<open>The registry\<close>

text \<open>
  C2.  \<open>lookup\<close> is meant to return the label at a position inside the table and to
  fail only outside it.  In the source it fails for every index once the table is
  non-empty (positions 0 and 2 of the three-label table), returns \<open>undefined\<close>
  instead of failing on an empty table, and so never returns a label.
\<close>

theorem lookup_never_returns_label:
  "lookupTable example_registry = Some [''alexa'', ''ok_google'', ''hey_google'']
   \<and> lookup example_registry 0 = Inl IndexError
   \<and> lookup example_registry 2 = Inl IndexError
   \<and> lookup \<lparr>models = ms, lookupTable = Some []\<rparr> 0 = Inr None
   \<and> lookup this index \<noteq> Inr (Some label)"
  by (simp add: example_registry_eq lookup_def IndexError_def array_get_def split: option.split)

text \<open>
  C4.  When the file of the model does not exist, \<open>add\<close> fails with the validation
  error and returns the registry as it was (its models, and with them the model
  count, and its lookup table); \<open>modelString\<close> and \<open>sensitivityString\<close>, which read
  the models through the store, are the same after as before, and so is the table
  that a regeneration would produce.
\<close>

theorem add_missing_file_atomic:
  assumes "\<not> existsSync (model_file (h model))"
  shows "\<exists>h'. add existsSync model (h, this) = (Inl (ValidationError (model_file (h model))), h', this)
    \<and> modelString h' this = modelString h this
    \<and> sensitivityString h' this = sensitivityString h this
    \<and> generateHotwordsLookupTable h' this = generateHotwordsLookupTable h this"
proof -
  let ?h' = "h(model := (h model)\<lparr>hotwords := Labels (concat_arg (hotwords (h model)))\<rparr>)"
  have res: "add existsSync model (h, this) = (Inl (ValidationError (model_file (h model))), ?h', this)"
    using assms by (rule add_missing)
  have f: "\<And>m. model_file (?h' m) = model_file (h m)" by simp
  have s: "\<And>m. sensitivity (?h' m) = sensitivity (h m)" by simp
  have l: "\<And>m. concat_arg (hotwords (?h' m)) = concat_arg (hotwords (h m))" by simp
  have "modelString ?h' this = modelString h this"
    unfolding modelString_def f ..
  moreover have "sensitivityString ?h' this = sensitivityString h this"
    unfolding sensitivityString_def s ..
  moreover have "generateHotwordsLookupTable ?h' this = generateHotwordsLookupTable h this"
    unfolding generateHotwordsLookupTable_concat l ..
  ultimately show ?thesis using res by blast
qed

theorem add_missing_file_atomic_witness:
  "\<not> example_fs (model_file (example_store 2))
   \<and> (\<exists>h'. add example_fs 2 (example_store, example_registry)
              = (Inl (ValidationError ''missing.umdl''), h', example_registry)
        \<and> modelString h' example_registry = ''alexa.umdl,google.umdl''
        \<and> sensitivityString h' example_registry = ''0.5,''
        \<and> generateHotwordsLookupTable h' example_registry = [''alexa'', ''ok_google'', ''hey_google''])"
proof -
  have miss: "\<not> example_fs (model_file (example_store 2))"
    by (simp add: example_fs_def example_store_def model_C_def)
  have m: "model_file (example_store 2) = ''missing.umdl''"
    by (simp add: example_store_def model_C_def)
  have ms: "modelString example_store example_registry = ''alexa.umdl,google.umdl''"
    by (simp add: example_registry_eq modelString_def example_store_def model_A_def model_B_def)
  have ss: "sensitivityString example_store example_registry = ''0.5,''"
    by (simp add: example_registry_eq sensitivityString_def example_store_def model_A_def model_B_def)
  have t: "generateHotwordsLookupTable example_store example_registry
             = [''alexa'', ''ok_google'', ''hey_google'']"
    by (simp add: example_registry_eq generateHotwordsLookupTable_def example_store_def
        model_A_def model_B_def)
  from add_missing_file_atomic [of example_fs example_store 2 example_registry, OF miss]
  have "\<exists>h'. add example_fs 2 (example_store, example_registry)
              = (Inl (ValidationError ''missing.umdl''), h', example_registry)
        \<and> modelString h' example_registry = ''alexa.umdl,google.umdl''
        \<and> sensitivityString h' example_registry = ''0.5,''
        \<and> generateHotwordsLookupTable h' example_registry = [''alexa'', ''ok_google'', ''hey_google'']"
    unfolding m ms ss t .
  with miss show ?thesis by (rule conjI)
qed

text \<open>
  C5.  After a non-empty run of successful \<open>add\<close> calls on a new registry, the lookup
  table is the concatenation, in the order of the calls, of the label lists of the
  models added (as the caller supplied them); \<open>numHotwords\<close> is the length of that
  table, which is the sum of the models' label counts.
\<close>

theorem lookup_table_after_adds:
  assumes "add_all existsSync ms (h, new_HotwordModels) = (Inr u, h', this)" and "ms \<noteq> []"
  shows "lookupTable this = Some (concat (map (\<lambda>m. concat_arg (hotwords (h m))) ms))
    \<and> numHotwords this = Inr (int (length (concat (map (\<lambda>m. concat_arg (hotwords (h m))) ms))))
    \<and> numHotwords this = Inr (\<Sum>m\<leftarrow>ms. int (length (concat_arg (hotwords (h m)))))"
proof -
  from add_all_inv [OF assms(1)] assms(2)
  have m: "models this = ms"
    and l: "\<And>x. concat_arg (hotwords (h' x)) = concat_arg (hotwords (h x))"
    and t: "lookupTable this = Some (concat (map (\<lambda>x. concat_arg (hotwords (h' x))) (models this)))"
    by (simp_all add: new_HotwordModels_def)
  have tab: "lookupTable this = Some (concat (map (\<lambda>m. concat_arg (hotwords (h m))) ms))"
    using t unfolding l m .
  have len: "int (length (concat (map (\<lambda>m. concat_arg (hotwords (h m))) ms)))
      = (\<Sum>m\<leftarrow>ms. int (length (concat_arg (hotwords (h m)))))"
    by (induction ms) simp_all
  from tab len show ?thesis by (simp add: numHotwords_def)
qed

theorem lookup_table_after_adds_witness:
  "(\<exists>h'. add_all example_fs [0, 1] (example_store, new_HotwordModels) = (Inr (), h', example_registry))
   \<and> [0, 1] \<noteq> ([] :: ref list)
   \<and> lookupTable example_registry = Some [''alexa'', ''ok_google'', ''hey_google'']
   \<and> numHotwords example_registry = Inr 3"
proof -
  obtain r h' where run: "add_all example_fs [0, 1] (example_store, new_HotwordModels) = (r, h', example_registry)"
    unfolding example_registry_def by (metis prod.collapse)
  have "r = Inr ()"
    using run
    by (simp add: add_def Let_def example_store_def example_fs_def model_A_def model_B_def)
  with run have ok: "add_all example_fs [0, 1] (example_store, new_HotwordModels) = (Inr (), h', example_registry)"
    by simp
  have ne: "[0, 1] \<noteq> ([] :: ref list)" by simp
  from lookup_table_after_adds [OF ok ne]
  have "lookupTable example_registry = Some [''alexa'', ''ok_google'', ''hey_google'']
        \<and> numHotwords example_registry = Inr 3"
    by (simp add: example_store_def model_A_def model_B_def)
  with ok ne show ?thesis by blast
qed

text \<open>
  C9.  On a new registry \<open>numHotwords\<close> raises (the table is undefined) and \<open>lookup\<close>
  raises for every index: the out-of-bounds error for a negative index, the
  runtime's error otherwise.  An \<open>add\<close> that fails leaves the registry new; after
  an \<open>add\<close> that succeeds \<open>numHotwords\<close> returns a number.
\<close>

theorem fresh_registry_accessors_fail:
  "numHotwords new_HotwordModels = Inl TypeError
   \<and> lookup new_HotwordModels index = Inl (if index < 0 then IndexError else TypeError)
   \<and> (if existsSync (model_file (h model))
      then \<exists>n. numHotwords (snd (snd (add existsSync model (h, new_HotwordModels)))) = Inr n
      else snd (snd (add existsSync model (h, new_HotwordModels))) = new_HotwordModels)"
  by (simp add: numHotwords_def lookup_def new_HotwordModels_def IndexError_def add_def Let_def)

text \<open>
  C10.  \<open>add\<close> writes the list form of \<open>hotwords\<close> into the caller's model object
  before it checks the file, on every call.  When the file does not exist the call
  fails with the validation error and the registry is as it was, but the object
  has been overwritten: a single label \<open>s\<close> has become the one-element list,
  so the object differs from what the caller passed.
\<close>

theorem add_overwrites_hotwords_before_check:
  "fst (snd (add existsSync model (h, this)))
     = h(model := (h model)\<lparr>hotwords := Labels (concat_arg (hotwords (h model)))\<rparr>)
   \<and> (\<not> existsSync (model_file (h model)) \<longrightarrow>
        fst (add existsSync model (h, this)) = Inl (ValidationError (model_file (h model)))
        \<and> snd (snd (add existsSync model (h, this))) = this
        \<and> (\<forall>s. hotwords (h model) = Label s \<longrightarrow>
              hotwords (fst (snd (add existsSync model (h, this))) model) = Labels [s]
              \<and> fst (snd (add existsSync model (h, this))) model \<noteq> h model))"
proof -
  have "fst (snd (add existsSync model (h, this)))
     = h(model := (h model)\<lparr>hotwords := Labels (concat_arg (hotwords (h model)))\<rparr>)"
    by (simp add: add_def Let_def)
  moreover have "hotwords (h model) = Label s \<Longrightarrow>
      h model \<noteq> (h model)\<lparr>hotwords := Labels [s]\<rparr>" for s
    by (cases "h model") auto
  ultimately show ?thesis
    by (auto simp: add_missing)
qed

theorem add_overwrites_hotwords_before_check_witness:
  "\<not> example_fs (model_file (example_store 2))
   \<and> hotwords (example_store 2) = Label ''jarvis''
   \<and> fst (add example_fs 2 (example_store, example_registry)) = Inl (ValidationError ''missing.umdl'')
   \<and> snd (snd (add example_fs 2 (example_store, example_registry))) = example_registry
   \<and> hotwords (fst (snd (add example_fs 2 (example_store, example_registry))) 2) = Labels [''jarvis'']
   \<and> fst (snd (add example_fs 2 (example_store, example_registry))) 2 \<noteq> example_store 2"
proof -
  have miss: "\<not> example_fs (model_file (example_store 2))"
    by (simp add: example_fs_def example_store_def model_C_def)
  have m: "model_file (example_store 2) = ''missing.umdl''"
    by (simp add: example_store_def model_C_def)
  have l: "hotwords (example_store 2) = Label ''jarvis''"
    by (simp add: example_store_def model_C_def)
  have "fst (add example_fs 2 (example_store, example_registry))
           = Inl (ValidationError (model_file (example_store 2)))
       \<and> snd (snd (add example_fs 2 (example_store, example_registry))) = example_registry
       \<and> hotwords (fst (snd (add example_fs 2 (example_store, example_registry))) 2) = Labels [''jarvis'']
       \<and> fst (snd (add example_fs 2 (example_store, example_registry))) 2 \<noteq> example_store 2"
    using add_overwrites_hotwords_before_check [of example_fs 2 example_store example_registry]
      miss l by blast
  then show ?thesis
    using miss l by (simp only: m simp_thms)
qed

section \<open>Construction of the dispatcher\<close>

text \<open>
  C6.  When the registry has a hotword count and the engine reports a different
  one, construction fails with the mismatch error.  The constructor never runs a
  detection, and it asks the engine for its count exactly once; a detection call
  never asks for the count and never fails with the mismatch error.
\<close>

theorem count_mismatch_fails_at_construction:
  "(numHotwords (opt_models options) = Inr n
      \<and> NumHotwords N (new_native N (resource options) (modelString h (opt_models options))) \<noteq> n
     \<longrightarrow> fst (SnowboyDetect_constructor N h options) = Inl ConfigurationMismatchError)
   \<and> (\<forall>b. native_RunDetection b \<notin> set (snd (SnowboyDetect_constructor N h options)))
   \<and> count_list (snd (SnowboyDetect_constructor N h options)) native_NumHotwords = 1
   \<and> native_NumHotwords \<notin> set (snd (snd (runDetection N ms this buffer)))
   \<and> fst (runDetection N ms this buffer) \<noteq> Inl ConfigurationMismatchError"
proof -
  have a: "numHotwords (opt_models options) = Inr n
      \<and> NumHotwords N (new_native N (resource options) (modelString h (opt_models options))) \<noteq> n
     \<longrightarrow> fst (SnowboyDetect_constructor N h options) = Inl ConfigurationMismatchError"
    by (simp add: SnowboyDetect_constructor_def ConfigurationMismatchError_def Let_def)
  have b: "\<forall>b. native_RunDetection b \<notin> set (snd (SnowboyDetect_constructor N h options))"
    by (simp add: SnowboyDetect_constructor_def Let_def split: sum.split option.split)
  have c: "count_list (snd (SnowboyDetect_constructor N h options)) native_NumHotwords = 1"
    by (simp add: SnowboyDetect_constructor_def Let_def split: sum.split option.split)
  have d: "native_NumHotwords \<notin> set (snd (snd (runDetection N ms this buffer)))"
    using processDetectionResult_effects
      [of ms "this\<lparr>nativeInstance := snd (RunDetection N (nativeInstance this) buffer)\<rparr>"
          "fst (RunDetection N (nativeInstance this) buffer)"]
    by (auto simp: runDetection_def Let_def)
  have e: "fst (runDetection N ms this buffer) \<noteq> Inl ConfigurationMismatchError"
    by (auto simp: runDetection_def ConfigurationMismatchError_def Let_def
        split: sum.splits dest: processDetectionResult_errors)
  from a b c d e show ?thesis by blast
qed

theorem count_mismatch_fails_at_construction_witness:
  "numHotwords example_registry = Inr 3
   \<and> NumHotwords (example_engine 0\<lparr>NumHotwords := (\<lambda>s. 2)\<rparr>)
       (new_native (example_engine 0\<lparr>NumHotwords := (\<lambda>s. 2)\<rparr>) ''common.res''
          (modelString example_store example_registry)) \<noteq> 3
   \<and> fst (SnowboyDetect_constructor (example_engine 0\<lparr>NumHotwords := (\<lambda>s. 2)\<rparr>) example_store
        \<lparr>resource = ''common.res'', opt_models = example_registry, audioGain = Some (Num 2)\<rparr>)
       = Inl ConfigurationMismatchError
   \<and> snd (SnowboyDetect_constructor (example_engine 0\<lparr>NumHotwords := (\<lambda>s. 2)\<rparr>) example_store
        \<lparr>resource = ''common.res'', opt_models = example_registry, audioGain = Some (Num 2)\<rparr>)
       = [native_new ''common.res'' ''alexa.umdl,google.umdl'', native_NumHotwords]"
proof -
  let ?N = "example_engine 0\<lparr>NumHotwords := (\<lambda>s. 2)\<rparr>"
  let ?o = "\<lparr>resource = ''common.res'', opt_models = example_registry, audioGain = Some (Num 2)\<rparr>"
  have n: "numHotwords (opt_models ?o) = Inr 3"
    by (simp add: example_registry_eq numHotwords_def)
  have k: "NumHotwords ?N (new_native ?N (resource ?o) (modelString example_store (opt_models ?o))) \<noteq> 3"
    by (simp add: example_engine_def)
  have t: "snd (SnowboyDetect_constructor ?N example_store ?o)
       = [native_new ''common.res'' ''alexa.umdl,google.umdl'', native_NumHotwords]"
    by (simp add: SnowboyDetect_constructor_def example_registry_eq example_engine_def
      modelString_def numHotwords_def example_store_def model_A_def model_B_def)
  from count_mismatch_fails_at_construction [of ?o 3 ?N example_store] n k
  have "fst (SnowboyDetect_constructor ?N example_store ?o) = Inl ConfigurationMismatchError"
    by blast
  with n k t show ?thesis by simp
qed

text \<open>
  C8.  An audio gain given in the options is meant to be applied during
  construction.  The constructor tests the value for truthiness: with the gain 0 no
  \<open>SetAudioGain\<close> call reaches the engine, which keeps its initial gain, while the
  gain 2 is applied, and the setter \<open>setAudioGain\<close> does pass 0 on.
\<close>

theorem zero_gain_not_applied:
  "SnowboyDetect_constructor (example_engine 0) example_store
       \<lparr>resource = ''common.res'', opt_models = example_registry, audioGain = Some (Num 0)\<rparr>
     = (Inr \<lparr>nativeInstance = (0, Num 1), listeners = (\<lambda>name. [])\<rparr>,
        [native_new ''common.res'' ''alexa.umdl,google.umdl'', native_NumHotwords])
   \<and> SnowboyDetect_constructor (example_engine 0) example_store
       \<lparr>resource = ''common.res'', opt_models = example_registry, audioGain = Some (Num 2)\<rparr>
     = (Inr \<lparr>nativeInstance = (0, Num 2), listeners = (\<lambda>name. [])\<rparr>,
        [native_new ''common.res'' ''alexa.umdl,google.umdl'', native_NumHotwords,
         native_SetAudioGain (Num 2)])
   \<and> setAudioGain (example_engine 0) \<lparr>nativeInstance = (0, Num 1), listeners = (\<lambda>name. [])\<rparr> (Num 0)
     = (\<lparr>nativeInstance = (0, Num 0), listeners = (\<lambda>name. [])\<rparr>, [native_SetAudioGain (Num 0)])"
  by (simp add: SnowboyDetect_constructor_def setAudioGain_def example_registry_eq example_engine_def
      modelString_def numHotwords_def example_store_def model_A_def model_B_def)

end
